theory Spec2Isabelle
  imports Complex_Main "HOL-Library.AList" "HOL-Library.List_Lexorder" "HOL-Library.Char_ord"
begin

section \<open>Python values, errors and the libraries the scripts call\<close>

text \<open>
  The three scripts under \<open>visualization/\<close> read a result file, build figures and
  save them. Exceptions are values of the type \<open>error\<close>; a computation that may raise
  returns \<open>error + 'a\<close>, with \<open>Inl\<close> for the exception.
\<close>

datatype error =
    KeyError | TypeError | ValueError | AttributeError | UnboundLocalError
  | ZeroDivisionError | FileNotFoundError | FileExistsError | IsADirectoryError
  | NotADirectoryError | DecodeError | SystemExit nat

text \<open>
  A Python float is a finite number, an infinity or NaN. Rounding is not modelled:
  finite floats are real numbers.
\<close>

datatype pyfloat = Fin real | PInf | NInf | NaN

text \<open>
  What \<open>json.load\<close> returns: \<open>null\<close> is Python's \<open>None\<close>, an object is a
  \<open>dict\<close> (its items in insertion order, keys distinct), an array is a \<open>list\<close>.
\<close>

datatype json =
    JNull | JBool bool | JInt int | JFloat pyfloat | JStr string
  | JArr "json list" | JObj "(string \<times> json) list"

subsection \<open>Figures and files\<close>

text \<open>
  A path is the list of its components (\<open>pathlib.Path.parts\<close>); the empty list is
  the working directory. Components \<open>..\<close> and links are not modelled.
\<close>

type_synonym path = "string list"

text \<open>The pieces of an f-string: literal text, \<open>{v}\<close>, \<open>{v:spec}\<close>, a length and
  a path.\<close>

datatype piece = S string | V json | F json string | N nat | P path

text \<open>
  The data handed to a charting primitive: \<open>Line\<close> is \<open>ax.plot\<close> and
  \<open>go.Scatter\<close> (label, x, y), \<open>Fill\<close> is \<open>fill_between\<close> (label, x, lower,
  upper), \<open>Bars\<close> is \<open>bar\<close>, \<open>barh\<close> and \<open>go.Bar\<close> (positions, sizes),
  \<open>Ticks\<close> is \<open>set_yticks\<close> with \<open>set_yticklabels\<close>, \<open>Pie\<close> is \<open>pie\<close>,
  \<open>Label\<close> is \<open>text\<close>, \<open>Table\<close> is \<open>go.Table\<close> (its rows), \<open>Hist\<close> is
  \<open>hist\<close> (data, bins), \<open>VLine\<close> is \<open>axvline\<close> and \<open>Heatmap\<close> is
  \<open>seaborn.heatmap\<close> (row labels, column labels, cells). \<open>Plot\<close> is \<open>ax.plot\<close> without
  a label (x as it is given, y) and \<open>Scatter\<close> is \<open>go.Scatter\<close> with a name taken from
  the data (name, x as it is given, y). Styling, and the titles and axis labels that are
  constants of the scripts, are left out.
\<close>

datatype artist =
    Line string "json list" "json list"
  | Fill string "json list" "json list" "json list"
  | Bars "json list" "json list"
  | Ticks "json list" "json list"
  | Pie "json list" "string list"
  | Label "piece list"
  | Table "(piece list \<times> piece list) list"
  | Hist "json list" nat
  | VLine json "piece list"
  | Heatmap "string list" "string list" "((string \<times> string) \<times> json) list"
  | Plot json "json list"
  | Scatter json json "json list"

text \<open>A figure is the list of what was drawn, in order, each with the (row, column)
  of its subplot.\<close>

type_synonym figure = "((nat \<times> nat) \<times> artist) list"

datatype content = Text string | PNG figure | HTML figure

datatype entry = Dir | File content

text \<open>The world a script runs in: the file system (an association list from paths to
  entries) and the lines printed so far.\<close>

record world =
  files :: "(path \<times> entry) list"
  stdout :: "piece list list"

definition and_then :: "error + 'a \<Rightarrow> ('a \<Rightarrow> error + 'b) \<Rightarrow> error + 'b" where
  "and_then m f = (case m of Inl e \<Rightarrow> Inl e | Inr x \<Rightarrow> f x)"

fun contains_str :: "string \<Rightarrow> string \<Rightarrow> bool" where
  "contains_str k [] = (k = [])"
| "contains_str k (c # cs) = (take (length k) (c # cs) = k \<or> contains_str k cs)"

text \<open>\<open>key in v\<close> for a string key: a key test on a dict, an element test on a list,
  a substring test on a string, a \<open>TypeError\<close> on anything else.\<close>

fun py_in :: "string \<Rightarrow> json \<Rightarrow> error + bool" where
  "py_in k (JObj kvs) = Inr (k \<in> set (map fst kvs))"
| "py_in k (JArr xs) = Inr (JStr k \<in> set xs)"
| "py_in k (JStr s) = Inr (contains_str k s)"
| "py_in k v = Inl TypeError"

text \<open>\<open>v[key]\<close> for a string key: only a dict can be subscripted by a string.\<close>

fun py_getitem :: "json \<Rightarrow> string \<Rightarrow> error + json" where
  "py_getitem (JObj kvs) k = (case map_of kvs k of None \<Rightarrow> Inl KeyError | Some x \<Rightarrow> Inr x)"
| "py_getitem v k = Inl TypeError"


fun py_truthy :: "json \<Rightarrow> bool" where
  "py_truthy JNull = False"
| "py_truthy (JBool b) = b"
| "py_truthy (JInt i) = (i \<noteq> 0)"
| "py_truthy (JFloat f) = (f \<noteq> Fin 0)"
| "py_truthy (JStr s) = (s \<noteq> [])"
| "py_truthy (JArr xs) = (xs \<noteq> [])"
| "py_truthy (JObj kvs) = (kvs \<noteq> [])"


text \<open>Iterating over a value (\<open>for x in v\<close>): the elements of a list, the keys of a
  dict, the characters of a string.\<close>

fun py_iter :: "json \<Rightarrow> error + json list" where
  "py_iter (JArr xs) = Inr xs"
| "py_iter (JObj kvs) = Inr (map (\<lambda>kv. JStr (fst kv)) kvs)"
| "py_iter (JStr s) = Inr (map (\<lambda>c. JStr [c]) s)"
| "py_iter v = Inl TypeError"

subsection \<open>Data frames\<close>

text \<open>
  A \<open>pandas.DataFrame\<close>, column by column: the labels in order, each with its cells,
  and the number of rows. \<open>df.columns\<close> is \<open>columns df\<close>, \<open>df[c]\<close> is \<open>column df c\<close>
  and \<open>len(df)\<close> is \<open>nrows df\<close>. The labels are strings and distinct, as \<open>read_csv\<close> and
  \<open>pandas.DataFrame\<close> on a list of records make them.
\<close>

record dataframe =
  nrows :: nat
  cols :: "(string \<times> json list) list"

definition columns :: "dataframe \<Rightarrow> string list" where
  "columns df = map fst (cols df)"

definition column :: "dataframe \<Rightarrow> string \<Rightarrow> error + json list" where
  "column df c = (case map_of (cols df) c of None \<Rightarrow> Inl KeyError | Some xs \<Rightarrow> Inr xs)"

text \<open>
  The libraries are parameters of the model. \<open>json_load\<close> and \<open>read_csv\<close> parse the
  contents of a file, \<open>data_frame\<close> is the constructor \<open>pandas.DataFrame\<close>,
  \<open>series_other\<close> is the arithmetic of \<open>pandas\<close> on columns that hold neither 64-bit
  integers nor floats, \<open>corr\<close> is \<open>Series.corr\<close> (Pearson correlation by default),
  \<open>str\<close> is Python's \<open>str\<close>, and \<open>rejects\<close> is the exception, if any, with which the
  charting library refuses to draw the data it is given.
\<close>

record lib =
  json_load :: "content \<Rightarrow> error + json"
  read_csv :: "content \<Rightarrow> error + dataframe"
  data_frame :: "json \<Rightarrow> error + dataframe"
  series_other :: "string \<Rightarrow> json list \<Rightarrow> json list \<Rightarrow> error + json list"
  corr :: "json list \<Rightarrow> json list \<Rightarrow> error + json"
  str :: "json \<Rightarrow> string"
  rejects :: "artist \<Rightarrow> error option"

subsection \<open>Arithmetic and comparison\<close>

text \<open>Float addition, multiplication and comparison, and the division of
  \<open>numpy\<close>, which returns an infinity or NaN where the divisor is zero.\<close>

fun fadd :: "pyfloat \<Rightarrow> pyfloat \<Rightarrow> pyfloat" where
  "fadd (Fin x) (Fin y) = Fin (x + y)"
| "fadd NaN y = NaN"
| "fadd x NaN = NaN"
| "fadd PInf NInf = NaN"
| "fadd NInf PInf = NaN"
| "fadd PInf y = PInf"
| "fadd x PInf = PInf"
| "fadd NInf y = NInf"
| "fadd x NInf = NInf"

fun fmul :: "pyfloat \<Rightarrow> pyfloat \<Rightarrow> pyfloat" where
  "fmul (Fin x) (Fin y) = Fin (x * y)"
| "fmul NaN y = NaN"
| "fmul x NaN = NaN"
| "fmul PInf (Fin y) = (if y = 0 then NaN else if 0 < y then PInf else NInf)"
| "fmul NInf (Fin y) = (if y = 0 then NaN else if 0 < y then NInf else PInf)"
| "fmul (Fin x) PInf = (if x = 0 then NaN else if 0 < x then PInf else NInf)"
| "fmul (Fin x) NInf = (if x = 0 then NaN else if 0 < x then NInf else PInf)"
| "fmul PInf PInf = PInf"
| "fmul NInf NInf = PInf"
| "fmul PInf NInf = NInf"
| "fmul NInf PInf = NInf"

fun fdiv :: "pyfloat \<Rightarrow> pyfloat \<Rightarrow> pyfloat" where
  "fdiv (Fin x) (Fin y) =
     (if y \<noteq> 0 then Fin (x / y) else if 0 < x then PInf else if x < 0 then NInf else NaN)"
| "fdiv NaN y = NaN"
| "fdiv x NaN = NaN"
| "fdiv (Fin x) y = Fin 0"
| "fdiv PInf (Fin y) = (if 0 \<le> y then PInf else NInf)"
| "fdiv NInf (Fin y) = (if 0 \<le> y then NInf else PInf)"
| "fdiv PInf PInf = NaN"
| "fdiv PInf NInf = NaN"
| "fdiv NInf PInf = NaN"
| "fdiv NInf NInf = NaN"

fun fgt :: "pyfloat \<Rightarrow> pyfloat \<Rightarrow> bool" where
  "fgt (Fin x) (Fin y) = (y < x)"
| "fgt NaN y = False"
| "fgt x NaN = False"
| "fgt PInf PInf = False"
| "fgt PInf y = True"
| "fgt x PInf = False"
| "fgt NInf y = False"
| "fgt x NInf = True"

text \<open>The number a value stands for in arithmetic; \<open>True\<close> and \<open>False\<close> are 1
  and 0.\<close>

fun to_float :: "json \<Rightarrow> pyfloat option" where
  "to_float (JInt i) = Some (Fin (of_int i))"
| "to_float (JFloat f) = Some f"
| "to_float (JBool b) = Some (Fin (if b then 1 else 0))"
| "to_float v = None"

text \<open>\<open>a > b\<close> and \<open>a / b\<close> on Python scalars that are numbers; on other values
  they raise.\<close>

definition py_gt :: "json \<Rightarrow> json \<Rightarrow> error + bool" where
  "py_gt a b = (case (to_float a, to_float b) of
      (Some x, Some y) \<Rightarrow> Inr (fgt x y) | _ \<Rightarrow> Inl TypeError)"

definition py_truediv :: "json \<Rightarrow> json \<Rightarrow> error + json" where
  "py_truediv a b = (case (to_float a, to_float b) of
      (Some x, Some y) \<Rightarrow> if y = Fin 0 then Inl ZeroDivisionError else Inr (JFloat (fdiv x y))
    | _ \<Rightarrow> Inl TypeError)"

text \<open>\<open>f"{v:spec}"\<close> with a float format: a number is formatted, a string is a
  \<open>ValueError\<close>, anything else a \<open>TypeError\<close>.\<close>

fun fmt :: "json \<Rightarrow> string \<Rightarrow> error + piece" where
  "fmt (JStr s) spec = Inl ValueError"
| "fmt v spec = (case to_float v of None \<Rightarrow> Inl TypeError | Some f \<Rightarrow> Inr (F v spec))"

text \<open>
  Arithmetic on the columns of a frame (\<open>pandas.Series\<close>), cell by cell, in the machine
  format of the columns. A column whose cells are all integers of 64 bits is an
  \<open>int64\<close> column: its sums and products wrap around. A column whose cells are all
  floats is a \<open>float64\<close> column (a missing cell is NaN there). The division \<open>/\<close> is
  the true division of \<open>numpy\<close>: its result is a float also for two \<open>int64\<close> columns, and
  a zero divisor gives an infinity or NaN. Columns of any other kind are left to
  \<open>series_other\<close>. Finite floats are real numbers: the rounding of \<open>float64\<close> is not
  modelled.
\<close>

datatype dtype = Int64 | Float64 | Other

fun is_int64 :: "json \<Rightarrow> bool" where
  "is_int64 (JInt i) = (- (2 ^ 63) \<le> i \<and> i < 2 ^ 63)"
| "is_int64 v = False"

fun is_float :: "json \<Rightarrow> bool" where
  "is_float (JFloat f) = True"
| "is_float v = False"

definition dtype_of :: "json list \<Rightarrow> dtype" where
  "dtype_of xs = (if list_all is_int64 xs then Int64
                  else if list_all is_float xs then Float64 else Other)"

definition wrap64 :: "int \<Rightarrow> int" where
  "wrap64 z = (z + 2 ^ 63) mod 2 ^ 64 - 2 ^ 63"

fun int_of :: "json \<Rightarrow> int" where
  "int_of (JInt i) = i"
| "int_of v = 0"

fun float_of :: "json \<Rightarrow> pyfloat" where
  "float_of (JInt i) = Fin (of_int i)"
| "float_of (JFloat f) = f"
| "float_of v = NaN"

definition series_add :: "lib \<Rightarrow> json list \<Rightarrow> json list \<Rightarrow> error + json list" where
  "series_add L a b =
     (if dtype_of a = Other \<or> dtype_of b = Other then series_other L ''+'' a b
      else if dtype_of a = Int64 \<and> dtype_of b = Int64
      then Inr (map (\<lambda>(x, y). JInt (wrap64 (int_of x + int_of y))) (zip a b))
      else Inr (map (\<lambda>(x, y). JFloat (fadd (float_of x) (float_of y))) (zip a b)))"

definition series_truediv :: "lib \<Rightarrow> json list \<Rightarrow> json list \<Rightarrow> error + json list" where
  "series_truediv L a b =
     (if dtype_of a = Other \<or> dtype_of b = Other then series_other L ''/'' a b
      else Inr (map (\<lambda>(x, y). JFloat (fdiv (float_of x) (float_of y))) (zip a b)))"

text \<open>The product of a column and a Python integer.\<close>

definition series_mul :: "lib \<Rightarrow> json list \<Rightarrow> int \<Rightarrow> error + json list" where
  "series_mul L a k =
     (case dtype_of a of
        Other \<Rightarrow> series_other L ''*'' a [JInt k]
      | Int64 \<Rightarrow> Inr (map (\<lambda>x. JInt (wrap64 (int_of x * k))) a)
      | Float64 \<Rightarrow> Inr (map (\<lambda>x. JFloat (fmul (float_of x) (Fin (of_int k)))) a))"

subsection \<open>Paths\<close>

definition ends_with :: "string \<Rightarrow> string \<Rightarrow> bool" where
  "ends_with suf s = (length suf \<le> length s \<and> drop (length s - length suf) s = suf)"

text \<open>\<open>Path.suffix\<close>: the last component from its last dot on, when that dot is
  neither the first nor the last character; otherwise empty.\<close>

definition name_suffix :: "string \<Rightarrow> string" where
  "name_suffix name =
     (let ext = rev (takeWhile (\<lambda>c. c \<noteq> CHR ''.'') (rev name))
      in if CHR ''.'' \<in> set name \<and> ext \<noteq> [] \<and> length ext + 1 < length name
         then CHR ''.'' # ext else [])"

definition suffix :: "path \<Rightarrow> string" where
  "suffix p = (if p = [] then [] else name_suffix (last p))"

text \<open>\<open>Path.stem\<close>: the last component without its suffix.\<close>

definition stem :: "path \<Rightarrow> string" where
  "stem p = (if p = [] then [] else take (length (last p) - length (suffix p)) (last p))"

definition parent :: "path \<Rightarrow> path" where
  "parent p = butlast p"

text \<open>\<open>str.lower\<close> on the letters A to Z; no other character becomes one of the
  letters of \<open>.json\<close> or \<open>.csv\<close>.\<close>

definition lower_char :: "char \<Rightarrow> char" where
  "lower_char c =
     (case map_of (zip ''ABCDEFGHIJKLMNOPQRSTUVWXYZ'' ''abcdefghijklmnopqrstuvwxyz'') c of
        None \<Rightarrow> c | Some d \<Rightarrow> d)"

definition lower :: "string \<Rightarrow> string" where
  "lower s = map lower_char s"

subsection \<open>Input and output\<close>

text \<open>A computation with effects takes the world and returns a value or an exception
  together with the world it leaves.\<close>

type_synonym 'a io = "world \<Rightarrow> (error + 'a) \<times> world"

definition io_return :: "'a \<Rightarrow> 'a io" where
  "io_return x w = (Inr x, w)"

definition io_raise :: "error \<Rightarrow> 'a io" where
  "io_raise e w = (Inl e, w)"

definition lift :: "error + 'a \<Rightarrow> 'a io" where
  "lift m w = (m, w)"

definition io_bind :: "'a io \<Rightarrow> ('a \<Rightarrow> 'b io) \<Rightarrow> 'b io" where
  "io_bind m f w = (case m w of (Inl e, w') \<Rightarrow> (Inl e, w') | (Inr x, w') \<Rightarrow> f x w')"

definition io_seq :: "unit io \<Rightarrow> 'b io \<Rightarrow> 'b io" where
  "io_seq m k = io_bind m (\<lambda>_. k)"

definition print :: "piece list \<Rightarrow> unit io" where
  "print line w = (Inr (), w\<lparr>stdout := stdout w @ [line]\<rparr>)"

definition is_dir :: "world \<Rightarrow> path \<Rightarrow> bool" where
  "is_dir w p = (p = [] \<or> map_of (files w) p = Some Dir)"

text \<open>\<open>open(p, 'r')\<close> followed by reading: the contents of the file.\<close>

definition read_file :: "path \<Rightarrow> content io" where
  "read_file p w =
     (if is_dir w p then (Inl IsADirectoryError, w)
      else case map_of (files w) p of
             Some (File c) \<Rightarrow> (Inr c, w)
           | _ \<Rightarrow> (Inl FileNotFoundError, w))"

text \<open>Writing a file: the parent must be a directory and the path must not be one.\<close>

definition write_file :: "path \<Rightarrow> content \<Rightarrow> unit io" where
  "write_file p c w =
     (if is_dir w p then (Inl IsADirectoryError, w)
      else if \<not> is_dir w (parent p) then (Inl FileNotFoundError, w)
      else (Inr (), w\<lparr>files := AList.update p (File c) (files w)\<rparr>))"

text \<open>\<open>Path.mkdir(exist_ok=True)\<close>.\<close>

definition mkdir :: "path \<Rightarrow> unit io" where
  "mkdir p w =
     (if is_dir w p then (Inr (), w)
      else case map_of (files w) p of
             Some e \<Rightarrow> (Inl FileExistsError, w)
           | None \<Rightarrow>
               if is_dir w (parent p)
               then (Inr (), w\<lparr>files := AList.update p Dir (files w)\<rparr>)
               else if map_of (files w) (parent p) = None then (Inl FileNotFoundError, w)
               else (Inl NotADirectoryError, w))"

text \<open>\<open>plt.savefig\<close> writes the figure as a PNG image.\<close>

definition savefig :: "path \<Rightarrow> figure \<Rightarrow> unit io" where
  "savefig p fig = write_file p (PNG fig)"

text \<open>A drawing call: the library refuses the data, or the artist is added to the
  figure.\<close>

definition draw :: "lib \<Rightarrow> nat \<times> nat \<Rightarrow> artist \<Rightarrow> figure \<Rightarrow> error + figure" where
  "draw L ax a fig = (case rejects L a of Some e \<Rightarrow> Inl e | None \<Rightarrow> Inr (fig @ [(ax, a)]))"

text \<open>\<open>ax.plot(df[xcol], df[ycol], label=...)\<close>.\<close>

definition plot_columns ::
  "lib \<Rightarrow> nat \<times> nat \<Rightarrow> string \<Rightarrow> dataframe \<Rightarrow> string \<Rightarrow> string \<Rightarrow> figure \<Rightarrow> error + figure" where
  "plot_columns L ax label df xcol ycol fig =
     and_then (column df xcol) (\<lambda>x. and_then (column df ycol) (\<lambda>y.
       draw L ax (Line label x y) fig))"

text \<open>Several drawing calls on one subplot, in order.\<close>

fun draw_each :: "lib \<Rightarrow> nat \<times> nat \<Rightarrow> artist list \<Rightarrow> figure \<Rightarrow> error + figure" where
  "draw_each L ax [] fig = Inr fig"
| "draw_each L ax (a # as) fig = and_then (draw L ax a fig) (draw_each L ax as)"

text \<open>A block under \<open>if b:\<close>.\<close>

definition if_then :: "bool \<Rightarrow> (figure \<Rightarrow> error + figure) \<Rightarrow> figure \<Rightarrow> error + figure" where
  "if_then b m fig = (if b then m fig else Inr fig)"

text \<open>\<open>a and b\<close> on tests that may raise: \<open>b\<close> is evaluated only when \<open>a\<close> holds.\<close>

definition py_and :: "error + bool \<Rightarrow> error + bool \<Rightarrow> error + bool" where
  "py_and a b = and_then a (\<lambda>x. if x then b else Inr False)"

text \<open>\<open>d.keys()\<close> and \<open>d.values()\<close>: methods of dicts only.\<close>

fun dict_items :: "json \<Rightarrow> error + (string \<times> json) list" where
  "dict_items (JObj kvs) = Inr kvs"
| "dict_items v = Inl AttributeError"

text \<open>\<open>output_dir.glob('*.png')\<close>: the entries of the directory whose name ends in
  \<open>.png\<close>, here in the order of the association list.\<close>

definition glob_png :: "path \<Rightarrow> world \<Rightarrow> path list" where
  "glob_png d w =
     filter (\<lambda>p. p \<noteq> [] \<and> parent p = d \<and> ends_with ''.png'' (last p)) (map fst (files w))"

fun print_all :: "piece list list \<Rightarrow> unit io" where
  "print_all [] = io_return ()"
| "print_all (l # ls) = io_seq (print l) (print_all ls)"

definition print_generated :: "path \<Rightarrow> unit io" where
  "print_generated d w = print_all (map (\<lambda>p. [S ''  - '', S (last p)]) (glob_png d w)) w"

text \<open>The exit status of the interpreter: 0 after a normal return, the argument of
  \<open>sys.exit\<close>, and 1 after any other uncaught exception.\<close>

fun exit_status :: "error + unit \<Rightarrow> nat" where
  "exit_status (Inr u) = 0"
| "exit_status (Inl (SystemExit n)) = n"
| "exit_status (Inl e) = 1"

text \<open>Statements in sequence, and a block under \<open>if c:\<close> whose test may raise.\<close>

fun steps :: "(figure \<Rightarrow> error + figure) list \<Rightarrow> figure \<Rightarrow> error + figure" where
  "steps [] fig = Inr fig"
| "steps (m # ms) fig = and_then (m fig) (steps ms)"

definition guarded ::
  "error + bool \<Rightarrow> (figure \<Rightarrow> error + figure) \<Rightarrow> figure \<Rightarrow> error + figure" where
  "guarded c m fig = and_then c (\<lambda>b. if b then m fig else Inr fig)"

section \<open>\<open>plot_simulation.py\<close>\<close>

text \<open>
  The budget utilisation of \<open>plot_cost_analysis\<close> and of the interactive
  \<open>create_simulation_dashboard\<close>:
  \<^verbatim>\<open>(df['TotalCost'] / (df['TotalCost'] + df['AvailableBudget'])) * 100\<close>
\<close>

definition budget_utilization :: "lib \<Rightarrow> dataframe \<Rightarrow> error + json list" where
  "budget_utilization L df =
     and_then (column df ''TotalCost'') (\<lambda>cost.
     and_then (column df ''TotalCost'') (\<lambda>cost'.
     and_then (column df ''AvailableBudget'') (\<lambda>budget.
     and_then (series_add L cost' budget) (\<lambda>total.
     and_then (series_truediv L cost total) (\<lambda>ratio.
       series_mul L ratio 100)))))"

definition load_simulation_data :: "lib \<Rightarrow> path \<Rightarrow> (json \<times> dataframe option) io" where
  "load_simulation_data L file_path =
     (if lower (suffix file_path) = ''.json'' then
        io_bind (read_file file_path) (\<lambda>c.
        io_bind (lift (json_load L c)) (\<lambda>data.
        io_bind (lift (py_in ''TimeSeries'' data)) (\<lambda>has.
          if has then
            io_bind (lift (py_getitem data ''TimeSeries'')) (\<lambda>ts.
            io_bind (lift (data_frame L ts)) (\<lambda>df.
              io_return (data, Some df)))
          else
            io_seq (print [S ''Error: No TimeSeries data found in JSON file''])
              (io_return (JNull, None)))))
      else if lower (suffix file_path) = ''.csv'' then
        io_bind (read_file file_path) (\<lambda>c.
        io_bind (lift (read_csv L c)) (\<lambda>df.
          io_return (JNull, Some df)))
      else
        io_seq (print [S ''Error: Unsupported file format '', S (suffix file_path)])
          (io_return (JNull, None)))"

text \<open>The drawing of \<open>plot_workforce_composition\<close> once the two columns are chosen.\<close>

definition workforce_composition_figure ::
  "lib \<Rightarrow> dataframe \<Rightarrow> string \<Rightarrow> string \<Rightarrow> error + figure" where
  "workforce_composition_figure L df humans_col ai_col =
     and_then (plot_columns L (1, 1) ''Human Workers'' df ''TimeStep'' humans_col []) (\<lambda>fig.
     and_then (plot_columns L (1, 1) ''AI Agents'' df ''TimeStep'' ai_col fig) (\<lambda>fig.
     and_then (column df ''TimeStep'') (\<lambda>t.
     and_then (column df humans_col) (\<lambda>h.
     and_then (draw L (2, 1) (Fill ''Human Workers'' t (map (\<lambda>_. JInt 0) t) h) fig) (\<lambda>fig.
     and_then (column df ai_col) (\<lambda>a.
     and_then (series_add L h a) (\<lambda>total.
       draw L (2, 1) (Fill ''AI Agents'' t h total) fig)))))))"

definition plot_workforce_composition :: "lib \<Rightarrow> dataframe \<Rightarrow> path \<Rightarrow> unit io" where
  "plot_workforce_composition L df output_dir =
     (if ''Workforce.Humans.Total'' \<in> set (columns df) then
        io_bind
          (lift (workforce_composition_figure L df ''Workforce.Humans.Total''
                   ''Workforce.AIAgents.Total''))
          (savefig (output_dir @ [''workforce_composition.png'']))
      else if ''TotalHumans'' \<notin> set (columns df) then
        print [S ''Warning: Could not find workforce composition columns'']
      else
        io_bind (lift (workforce_composition_figure L df ''TotalHumans'' ''TotalAIAgents''))
          (savefig (output_dir @ [''workforce_composition.png''])))"

definition revenue_and_productivity_figure :: "lib \<Rightarrow> dataframe \<Rightarrow> error + figure" where
  "revenue_and_productivity_figure L df =
     steps [if_then (''RevenueOutput'' \<in> set (columns df))
              (plot_columns L (1, 1) ''Revenue Output'' df ''TimeStep'' ''RevenueOutput''),
            if_then (''TotalProductivity'' \<in> set (columns df))
              (plot_columns L (2, 1) ''Total Productivity'' df ''TimeStep'' ''TotalProductivity'')]
       []"

definition plot_revenue_and_productivity :: "lib \<Rightarrow> dataframe \<Rightarrow> path \<Rightarrow> unit io" where
  "plot_revenue_and_productivity L df output_dir =
     io_bind (lift (revenue_and_productivity_figure L df))
       (savefig (output_dir @ [''revenue_productivity.png'']))"

definition cost_analysis_figure :: "lib \<Rightarrow> dataframe \<Rightarrow> error + figure" where
  "cost_analysis_figure L df =
     if_then (''TotalCost'' \<in> set (columns df) \<and> ''AvailableBudget'' \<in> set (columns df))
       (steps [plot_columns L (1, 1) ''Total Cost'' df ''TimeStep'' ''TotalCost'',
               plot_columns L (1, 1) ''Available Budget'' df ''TimeStep'' ''AvailableBudget'',
               (\<lambda>fig. and_then (budget_utilization L df) (\<lambda>budget_utilization.
                      and_then (column df ''TimeStep'') (\<lambda>t.
                        draw L (2, 1) (Line ''Budget Utilization (%)'' t budget_utilization) fig)))])
       []"

definition plot_cost_analysis :: "lib \<Rightarrow> dataframe \<Rightarrow> path \<Rightarrow> unit io" where
  "plot_cost_analysis L df output_dir =
     io_bind (lift (cost_analysis_figure L df)) (savefig (output_dir @ [''cost_analysis.png'']))"

text \<open>\<open>'EquilibriumState' in data and key in data['EquilibriumState']\<close>.\<close>

definition in_equilibrium_state :: "string \<Rightarrow> json \<Rightarrow> error + bool" where
  "in_equilibrium_state key data =
     py_and (py_in ''EquilibriumState'' data)
       (and_then (py_getitem data ''EquilibriumState'') (py_in key))"

text \<open>\<open>data['EquilibriumState']['Workforce']\<close>.\<close>

definition equilibrium_workforce :: "json \<Rightarrow> error + json" where
  "equilibrium_workforce data =
     and_then (py_getitem data ''EquilibriumState'') (\<lambda>eq. py_getitem eq ''Workforce'')"

text \<open>\<open>workforce[who]['Total']\<close>.\<close>

definition workforce_total :: "json \<Rightarrow> string \<Rightarrow> error + json" where
  "workforce_total workforce who = and_then (py_getitem workforce who) (\<lambda>g. py_getitem g ''Total'')"

text \<open>The four blocks of \<open>plot_equilibrium_analysis\<close>.\<close>

definition time_bar :: "lib \<Rightarrow> json \<Rightarrow> figure \<Rightarrow> error + figure" where
  "time_bar L data =
     guarded (py_in ''TimeToEquilibrium'' data) (\<lambda>fig.
       and_then (py_getitem data ''TimeToEquilibrium'') (\<lambda>v.
         draw L (1, 1) (Bars [JStr ''Time to Equilibrium''] [v]) fig))"

definition composition_pie :: "lib \<Rightarrow> json \<Rightarrow> figure \<Rightarrow> error + figure" where
  "composition_pie L data =
     guarded (in_equilibrium_state ''Workforce'' data) (\<lambda>fig.
       and_then (equilibrium_workforce data) (\<lambda>workforce.
         guarded (py_and (py_in ''Humans'' workforce) (py_in ''AIAgents'' workforce)) (\<lambda>fig.
           and_then (workforce_total workforce ''Humans'') (\<lambda>humans.
           and_then (workforce_total workforce ''AIAgents'') (\<lambda>ai.
             draw L (1, 2) (Pie [humans, ai] [''Human Workers'', ''AI Agents'']) fig))) fig))"

definition experience_bars :: "lib \<Rightarrow> json \<Rightarrow> figure \<Rightarrow> error + figure" where
  "experience_bars L data =
     guarded (in_equilibrium_state ''Workforce'' data) (\<lambda>fig.
       and_then (equilibrium_workforce data) (\<lambda>workforce.
         guarded
           (py_and (py_in ''Humans'' workforce)
              (and_then (py_getitem workforce ''Humans'') (py_in ''ByExperience''))) (\<lambda>fig.
           and_then (py_getitem workforce ''Humans'') (\<lambda>humans.
           and_then (py_getitem humans ''ByExperience'') (\<lambda>exp_data.
           and_then (dict_items exp_data) (\<lambda>items.
             draw L (2, 1) (Bars (map (\<lambda>kv. JStr (fst kv)) items) (map snd items)) fig))))
           fig))"

definition failures_bar :: "lib \<Rightarrow> json \<Rightarrow> figure \<Rightarrow> error + figure" where
  "failures_bar L data =
     guarded (py_in ''TotalCatastrophicFailures'' data) (\<lambda>fig.
       and_then (py_getitem data ''TotalCatastrophicFailures'') (\<lambda>v.
         draw L (2, 2) (Bars [JStr ''Total Failures''] [v]) fig))"

definition equilibrium_figure :: "lib \<Rightarrow> json \<Rightarrow> error + figure" where
  "equilibrium_figure L data =
     steps [time_bar L data, composition_pie L data, experience_bars L data,
            failures_bar L data] []"

definition plot_equilibrium_analysis :: "lib \<Rightarrow> json \<Rightarrow> dataframe \<Rightarrow> path \<Rightarrow> unit io" where
  "plot_equilibrium_analysis L data df output_dir =
     (if data = JNull then
        print [S ''Warning: Cannot create equilibrium analysis without JSON data'']
      else
        io_bind (lift (equilibrium_figure L data))
          (savefig (output_dir @ [''equilibrium_analysis.png''])))"

text \<open>The blocks of \<open>create_summary_dashboard\<close>: four charts from the frame, then
  four key metrics when \<open>data\<close> is truthy.\<close>

definition dashboard_workforce :: "lib \<Rightarrow> dataframe \<Rightarrow> figure \<Rightarrow> error + figure" where
  "dashboard_workforce L df =
     (let (humans_col, ai_col) =
            (if ''Workforce.Humans.Total'' \<in> set (columns df)
             then (''Workforce.Humans.Total'', ''Workforce.AIAgents.Total'')
             else (''TotalHumans'', ''TotalAIAgents''))
      in if_then (humans_col \<in> set (columns df))
           (steps [plot_columns L (1, 1) ''Humans'' df ''TimeStep'' humans_col,
                   plot_columns L (1, 1) ''AI Agents'' df ''TimeStep'' ai_col]))"

definition dashboard_revenue :: "lib \<Rightarrow> dataframe \<Rightarrow> figure \<Rightarrow> error + figure" where
  "dashboard_revenue L df =
     if_then (''RevenueOutput'' \<in> set (columns df))
       (plot_columns L (1, 3) [] df ''TimeStep'' ''RevenueOutput'')"

definition dashboard_cost :: "lib \<Rightarrow> dataframe \<Rightarrow> figure \<Rightarrow> error + figure" where
  "dashboard_cost L df =
     if_then (''TotalCost'' \<in> set (columns df))
       (steps [plot_columns L (2, 1) ''Total Cost'' df ''TimeStep'' ''TotalCost'',
               if_then (''AvailableBudget'' \<in> set (columns df))
                 (plot_columns L (2, 1) ''Available Budget'' df ''TimeStep'' ''AvailableBudget'')])"

definition dashboard_productivity :: "lib \<Rightarrow> dataframe \<Rightarrow> figure \<Rightarrow> error + figure" where
  "dashboard_productivity L df =
     if_then (''TotalProductivity'' \<in> set (columns df))
       (plot_columns L (2, 3) [] df ''TimeStep'' ''TotalProductivity'')"

definition metric_time :: "lib \<Rightarrow> json \<Rightarrow> figure \<Rightarrow> error + figure" where
  "metric_time L data =
     guarded (py_in ''TimeToEquilibrium'' data) (\<lambda>fig.
       and_then (py_getitem data ''TimeToEquilibrium'') (\<lambda>v.
         draw L (3, 1) (Label [V v, S ''\<newline>Time Steps'']) fig))"

definition metric_ratio :: "lib \<Rightarrow> json \<Rightarrow> figure \<Rightarrow> error + figure" where
  "metric_ratio L data =
     guarded (in_equilibrium_state ''Workforce'' data) (\<lambda>fig.
       and_then (equilibrium_workforce data) (\<lambda>workforce.
         guarded (py_and (py_in ''Humans'' workforce) (py_in ''AIAgents'' workforce)) (\<lambda>fig.
           and_then (workforce_total workforce ''Humans'') (\<lambda>total_humans.
           and_then (workforce_total workforce ''AIAgents'') (\<lambda>total_ai.
           and_then (py_gt total_humans (JInt 0)) (\<lambda>positive.
           and_then (if positive then py_truediv total_ai total_humans else Inr (JInt 0))
             (\<lambda>ratio.
           and_then (fmt ratio ''.2f'') (\<lambda>shown.
             draw L (3, 2) (Label [shown, S ''\<newline>AI:Human Ratio'']) fig))))))
           fig))"

definition metric_failures :: "lib \<Rightarrow> json \<Rightarrow> figure \<Rightarrow> error + figure" where
  "metric_failures L data =
     guarded (py_in ''TotalCatastrophicFailures'' data) (\<lambda>fig.
       and_then (py_getitem data ''TotalCatastrophicFailures'') (\<lambda>v.
         draw L (3, 3) (Label [V v, S ''\<newline>Failures'']) fig))"

definition metric_revenue :: "lib \<Rightarrow> json \<Rightarrow> figure \<Rightarrow> error + figure" where
  "metric_revenue L data =
     guarded (in_equilibrium_state ''RevenueOutput'' data) (\<lambda>fig.
       and_then (py_getitem data ''EquilibriumState'') (\<lambda>eq.
       and_then (py_getitem eq ''RevenueOutput'') (\<lambda>revenue.
       and_then (fmt revenue '',.0f'') (\<lambda>shown.
         draw L (3, 4) (Label [S ''$'', shown, S ''\<newline>Final Revenue'']) fig))))"

definition summary_dashboard_figure :: "lib \<Rightarrow> json \<Rightarrow> dataframe \<Rightarrow> error + figure" where
  "summary_dashboard_figure L data df =
     steps [dashboard_workforce L df, dashboard_revenue L df, dashboard_cost L df,
            dashboard_productivity L df,
            if_then (py_truthy data)
              (steps [metric_time L data, metric_ratio L data, metric_failures L data,
                      metric_revenue L data])] []"

definition create_summary_dashboard :: "lib \<Rightarrow> json \<Rightarrow> dataframe \<Rightarrow> path \<Rightarrow> unit io" where
  "create_summary_dashboard L data df output_dir =
     io_bind (lift (summary_dashboard_figure L data df))
       (savefig (output_dir @ [''simulation_dashboard.png'']))"

record args =
  input_file :: path
  output_arg :: path
  dashboard_only :: bool

definition main :: "lib \<Rightarrow> args \<Rightarrow> unit io" where
  "main L a =
     (let output_dir = output_arg a in
      io_seq (mkdir output_dir) (
      io_seq (print [S ''Loading simulation data from '', P (input_file a), S ''...'']) (
      io_bind (load_simulation_data L (input_file a)) (\<lambda>(data, loaded).
        case loaded of
          None \<Rightarrow>
            io_seq (print [S ''Error: Could not load simulation data'']) (io_raise (SystemExit 1))
        | Some df \<Rightarrow>
            io_seq (print [S ''Loaded '', N (nrows df), S '' time steps of simulation data'']) (
            io_seq
              (if dashboard_only a then
                 io_seq (print [S ''Creating summary dashboard...''])
                   (create_summary_dashboard L data df output_dir)
               else
                 io_seq (print [S ''Creating workforce composition plots...'']) (
                 io_seq (plot_workforce_composition L df output_dir) (
                 io_seq (print [S ''Creating revenue and productivity plots...'']) (
                 io_seq (plot_revenue_and_productivity L df output_dir) (
                 io_seq (print [S ''Creating cost analysis plots...'']) (
                 io_seq (plot_cost_analysis L df output_dir) (
                 io_seq (print [S ''Creating equilibrium analysis...'']) (
                 io_seq (plot_equilibrium_analysis L data df output_dir) (
                 io_seq (print [S ''Creating summary dashboard...''])
                   (create_summary_dashboard L data df output_dir)))))))))) (
            io_seq (print [S ''Plots saved to '', P output_dir, S ''/'']) (
            io_seq (print [S ''Generated files:'']) (
              print_generated output_dir))))))))"

section \<open>\<open>plot_sensitivity.py\<close>\<close>

subsection \<open>Parameter rankings\<close>

text \<open>
  The first loop of \<open>plot_parameter_rankings\<close>: the impacts on the time to equilibrium
  and the names of the entries that have one. The second loop: the impacts on the
  workforce composition.
\<close>

fun time_entries :: "json list \<Rightarrow> error + json list \<times> json list" where
  "time_entries [] = Inr ([], [])"
| "time_entries (param # rest) =
     and_then (py_in ''TimeToEquilibriumImpact'' param) (\<lambda>has.
       if has then
         and_then (py_getitem param ''TimeToEquilibriumImpact'') (\<lambda>impact.
         and_then (py_getitem param ''ParameterName'') (\<lambda>name.
         and_then (time_entries rest) (\<lambda>(time_impacts, param_names).
           Inr (impact # time_impacts, name # param_names))))
       else time_entries rest)"

fun comp_entries :: "json list \<Rightarrow> error + json list" where
  "comp_entries [] = Inr []"
| "comp_entries (param # rest) =
     and_then (py_in ''WorkforceCompositionImpact'' param) (\<lambda>has.
       if has then
         and_then (py_getitem param ''WorkforceCompositionImpact'') (\<lambda>impact.
         and_then (comp_entries rest) (\<lambda>comp_impacts. Inr (impact # comp_impacts)))
       else comp_entries rest)"

text \<open>\<open>np.arange(n)\<close>.\<close>

definition arange :: "nat \<Rightarrow> json list" where
  "arange n = map (\<lambda>i. JInt (int i)) [0..<n]"

text \<open>A horizontal bar chart with its tick labels and one text per bar, the width of
  the bar to three decimals.\<close>

definition impact_bars ::
  "lib \<Rightarrow> nat \<times> nat \<Rightarrow> json list \<Rightarrow> json list \<Rightarrow> json list \<Rightarrow> figure \<Rightarrow> error + figure" where
  "impact_bars L ax y_pos impacts param_names =
     steps [draw L ax (Bars y_pos impacts),
            draw L ax (Ticks y_pos param_names),
            draw_each L ax (map (\<lambda>width. Label [F width ''.3f'']) impacts)]"

text \<open>
  The figure of \<open>plot_parameter_rankings\<close>. The variable \<open>y_pos\<close> is assigned only in
  the block under \<open>if time_impacts:\<close>; it is \<open>None\<close> here while it is unassigned, and
  the second chart, which reads it, raises \<open>UnboundLocalError\<close> then.
\<close>

definition parameter_rankings_figure :: "lib \<Rightarrow> json \<Rightarrow> error + figure" where
  "parameter_rankings_figure L rankings =
     and_then (py_iter rankings) (\<lambda>params.
     and_then (time_entries params) (\<lambda>(time_impacts, param_names).
       let y_pos = (if time_impacts \<noteq> [] then Some (arange (length param_names)) else None)
       in and_then
            (case y_pos of
               None \<Rightarrow> Inr []
             | Some y \<Rightarrow> impact_bars L (1, 1) y time_impacts param_names []) (\<lambda>fig.
          and_then (comp_entries params) (\<lambda>comp_impacts.
            if comp_impacts \<noteq> [] then
              (case y_pos of
                 None \<Rightarrow> Inl UnboundLocalError
               | Some y \<Rightarrow> impact_bars L (1, 2) y comp_impacts param_names fig)
            else Inr fig))))"

definition plot_parameter_rankings :: "lib \<Rightarrow> json \<Rightarrow> path \<Rightarrow> unit io" where
  "plot_parameter_rankings L data output_dir =
     (if \<not> py_truthy data then print [S ''Warning: No parameter rankings found in data'']
      else
        io_bind (lift (py_in ''ParameterRankings'' data)) (\<lambda>has.
          if \<not> has then print [S ''Warning: No parameter rankings found in data'']
          else
            io_bind (lift (py_getitem data ''ParameterRankings'')) (\<lambda>rankings.
            io_bind (lift (parameter_rankings_figure L rankings))
              (savefig (output_dir @ [''parameter_rankings.png''])))))"

subsection \<open>Parameter variations\<close>








subsection \<open>Correlation heat map\<close>









section \<open>\<open>interactive_dashboard.py\<close>\<close>




section \<open>Predicates of the properties\<close>








text \<open>The entries of a list that contain a key, and the lists of dicts.\<close>

definition having :: "string \<Rightarrow> json list \<Rightarrow> json list" where
  "having k rs = filter (\<lambda>param. py_in k param = Inr True) rs"

fun is_dict :: "json \<Rightarrow> bool" where
  "is_dict (JObj kvs) = True"
| "is_dict v = False"


text \<open>The file at a path holds the figure that a drawing returned, as a PNG image.\<close>

definition saved :: "world \<Rightarrow> path \<Rightarrow> error + figure \<Rightarrow> bool" where
  "saved w p r = (case r of Inl e \<Rightarrow> False
     | Inr fig \<Rightarrow> map_of (files w) p = Some (File (PNG fig)))"

section \<open>Concrete inputs\<close>




text \<open>A simulation report with two time steps and its frame, a sensitivity run as the
  CSV reader returns it, and a library that parses exactly these files, refuses to
  make a frame of anything else, and draws everything.\<close>

definition series0 :: "json list" where
  "series0 =
     [JObj [(''TimeStep'', JInt 0), (''TotalHumans'', JInt 10), (''TotalAIAgents'', JInt 2),
            (''TotalCost'', JInt 30), (''AvailableBudget'', JInt 70)],
      JObj [(''TimeStep'', JInt 1), (''TotalHumans'', JInt 9), (''TotalAIAgents'', JInt 4),
            (''TotalCost'', JInt 40), (''AvailableBudget'', JInt 60)]]"

definition frame0 :: dataframe where
  "frame0 = \<lparr>nrows = 2, cols = [(''TimeStep'', [JInt 0, JInt 1]),
     (''TotalHumans'', [JInt 10, JInt 9]), (''TotalAIAgents'', [JInt 2, JInt 4]),
     (''TotalCost'', [JInt 30, JInt 40]), (''AvailableBudget'', [JInt 70, JInt 60])]\<rparr>"

definition report0 :: json where
  "report0 = JObj [(''TimeSeries'', JArr series0), (''TimeToEquilibrium'', JInt 5)]"

definition csv0 :: dataframe where
  "csv0 = \<lparr>nrows = 2, cols = [(''TimeStep'', [JInt 0, JInt 1]),
     (''RevenueOutput'', [JInt 100, JInt 120])]\<rparr>"

text \<open>A table with a workforce column and no column \<open>TimeStep\<close>.\<close>

definition csv_humans :: dataframe where
  "csv_humans = \<lparr>nrows = 2, cols = [(''TotalHumans'', [JInt 10, JInt 9])]\<rparr>"

definition lib0 :: lib where
  "lib0 = \<lparr>json_load = (\<lambda>c. if c = Text ''simulation'' then Inr report0
                           else if c = Text ''text under TimeSeries''
                           then Inr (JObj [(''TimeSeries'', JStr ''abc'')])
                           else Inl DecodeError),
            read_csv = (\<lambda>c. if c = Text ''table'' then Inr csv0
                          else if c = Text ''humans'' then Inr csv_humans
                          else Inl ValueError),
            data_frame = (\<lambda>v. if v = JArr series0 then Inr frame0 else Inl ValueError),
            series_other = (\<lambda>name a b. Inl TypeError),
            corr = (\<lambda>a b. if a = [JInt 1, JInt 2] \<and> b = [JInt 10, JInt 9]
                           then Inr (JFloat (Fin (- 1))) else Inr (JFloat NaN)),
            str = (\<lambda>v. if v = JInt 1 then ''1'' else if v = JInt 2 then ''2'' else []),
            rejects = (\<lambda>a. None)\<rparr>"

definition world0 :: world where
  "world0 = \<lparr>files = [([''report.json''], File (Text ''simulation'')),
                      ([''runs.csv''], File (Text ''table'')),
                      ([''notes.txt''], File (Text ''simulation'')),
                      ([''text.json''], File (Text ''text under TimeSeries'')),
                      ([''humans.csv''], File (Text ''humans''))],
              stdout = []\<rparr>"

text \<open>The same files with a directory for the plots.\<close>

definition world1 :: world where
  "world1 = \<lparr>files = [([''report.json''], File (Text ''simulation'')),
                      ([''runs.csv''], File (Text ''table'')),
                      ([''plots''], Dir)],
              stdout = []\<rparr>"

text \<open>Sensitivity reports: one ranking with an impact on the time to equilibrium only,
  and one with an impact on the workforce composition only.\<close>

definition time_only :: json where
  "time_only = JObj [(''ParameterRankings'',
     JArr [JObj [(''ParameterName'', JStr ''rate''), (''TimeToEquilibriumImpact'', JInt 2)]])]"

definition composition_only :: json where
  "composition_only = JObj [(''ParameterRankings'',
     JArr [JObj [(''ParameterName'', JStr ''rate''), (''WorkforceCompositionImpact'', JInt 2)]])]"



text \<open>The arguments of a full run on an input file, with the plots under \<open>plots\<close>.\<close>

definition full_run :: "path \<Rightarrow> args" where
  "full_run p = \<lparr>input_file = p, output_arg = [''plots''], dashboard_only = False\<rparr>"

section \<open>Properties\<close>

subsection \<open>Helper lemmas\<close>



lemma suffix_nonempty: "suffix p \<noteq> [] \<Longrightarrow> p \<noteq> []"
  by (auto simp: suffix_def)

lemma key_present: "map_of kvs k = Some v \<Longrightarrow> k \<in> fst ` set kvs"
  by (metis map_of_eq_None_iff option.distinct(1))

lemma key_absent: "map_of kvs k = None \<Longrightarrow> k \<notin> fst ` set kvs"
  by (simp add: map_of_eq_None_iff)

lemma mkdir_keeps_files:
  "map_of (files (snd (mkdir p w))) q = Some (File c) \<Longrightarrow> map_of (files w) q = Some (File c)"
  by (auto simp: mkdir_def update_conv' split: if_splits option.splits)

lemma mkdir_exit: "fst (mkdir p w) = Inl e \<Longrightarrow> exit_status (Inl e) = 1"
  by (auto simp: mkdir_def split: if_splits option.splits)

subsection \<open>Budget utilisation\<close>













subsection \<open>Loading a simulation report\<close>




subsection \<open>Unsupported input formats\<close>

text \<open>
  Claim C3. For an input path whose suffix, in lower case, is neither \<open>.json\<close> nor
  \<open>.csv\<close>, \<open>load_simulation_data\<close> prints the error naming the suffix and returns
  \<open>(None, None)\<close>; \<open>main\<close> of \<open>plot_simulation.py\<close> then ends with exit status 1,
  and every file that exists afterwards existed before with the same contents, so no
  plot file has been written.
\<close>

theorem unsupported_format_exit:
  assumes "lower (suffix (input_file a)) \<noteq> ''.json''"
    and "lower (suffix (input_file a)) \<noteq> ''.csv''"
  shows "load_simulation_data L (input_file a) w =
           (Inr (JNull, None),
            w\<lparr>stdout := stdout w @
               [[S ''Error: Unsupported file format '', S (suffix (input_file a))]]\<rparr>)
       \<and> exit_status (fst (main L a w)) = 1
       \<and> (\<forall>p c. map_of (files (snd (main L a w))) p = Some (File c)
              \<longrightarrow> map_of (files w) p = Some (File c))"
proof -
  have ld: "\<And>w. load_simulation_data L (input_file a) w =
           (Inr (JNull, None),
            w\<lparr>stdout := stdout w @
               [[S ''Error: Unsupported file format '', S (suffix (input_file a))]]\<rparr>)"
    using assms by (simp add: load_simulation_data_def io_seq_def io_bind_def print_def io_return_def)
  obtain r w1 where mk: "mkdir (output_arg a) w = (r, w1)" by (cases "mkdir (output_arg a) w")
  show ?thesis
  proof (cases r)
    case (Inl e)
    then have m: "main L a w = (Inl e, w1)"
      using mk by (simp add: main_def io_seq_def io_bind_def Let_def)
    have "exit_status (Inl e :: error + unit) = 1"
      using mkdir_exit[of "output_arg a" w e] mk Inl by simp
    moreover have "\<forall>p c. map_of (files w1) p = Some (File c) \<longrightarrow> map_of (files w) p = Some (File c)"
      using mkdir_keeps_files[of "output_arg a" w] mk by simp
    ultimately show ?thesis using ld m by simp
  next
    case (Inr u)
    then have m: "fst (main L a w) = Inl (SystemExit 1) \<and> files (snd (main L a w)) = files w1"
      using mk ld
      by (simp add: main_def io_seq_def io_bind_def Let_def print_def io_raise_def)
    moreover have "\<forall>p c. map_of (files w1) p = Some (File c) \<longrightarrow> map_of (files w) p = Some (File c)"
      using mkdir_keeps_files[of "output_arg a" w] mk by simp
    ultimately show ?thesis using ld by simp
  qed
qed

theorem unsupported_format_exit_witness:
  "main lib0 \<lparr>input_file = [''notes.txt''], output_arg = [''plots''], dashboard_only = False\<rparr> world0
     = (Inl (SystemExit 1),
        world0\<lparr>files := files world0 @ [([''plots''], Dir)],
               stdout := [[S ''Loading simulation data from '', P [''notes.txt''], S ''...''],
                          [S ''Error: Unsupported file format '', S ''.txt''],
                          [S ''Error: Could not load simulation data'']]\<rparr>)
   \<and> exit_status (fst (main lib0 \<lparr>input_file = [''notes.txt''], output_arg = [''plots''],
         dashboard_only = False\<rparr> world0)) = 1"
proof -
  let ?a = "\<lparr>input_file = [''notes.txt''], output_arg = [''plots''], dashboard_only = False\<rparr>"
  have h1: "lower (suffix (input_file ?a)) \<noteq> ''.json''"
    and h2: "lower (suffix (input_file ?a)) \<noteq> ''.csv''"
    by (simp_all add: suffix_def name_suffix_def lower_def lower_char_def)
  have sx: "suffix [''notes.txt''] = ''.txt''" by (simp add: suffix_def name_suffix_def)
  have mk: "mkdir [''plots''] world0 = (Inr (), world0\<lparr>files := files world0 @ [([''plots''], Dir)]\<rparr>)"
    by (simp add: mkdir_def is_dir_def world0_def parent_def)
  have out: "stdout world0 = []" by (simp add: world0_def)
  note th = unsupported_format_exit[OF h1 h2, of lib0]
  have ld: "\<And>w. load_simulation_data lib0 [''notes.txt''] w =
           (Inr (JNull, None),
            w\<lparr>stdout := stdout w @ [[S ''Error: Unsupported file format '', S ''.txt'']]\<rparr>)"
    using th sx by simp
  have "main lib0 ?a world0 = (Inl (SystemExit 1),
        world0\<lparr>files := files world0 @ [([''plots''], Dir)],
               stdout := [[S ''Loading simulation data from '', P [''notes.txt''], S ''...''],
                          [S ''Error: Unsupported file format '', S ''.txt''],
                          [S ''Error: Could not load simulation data'']]\<rparr>)"
    by (simp add: main_def Let_def io_seq_def io_bind_def mk ld print_def io_raise_def out)
  then show ?thesis using th[of world0] by simp
qed
subsection \<open>Parameter rankings\<close>

lemma time_entries_none:
  "list_all is_dict rs \<Longrightarrow> having ''TimeToEquilibriumImpact'' rs = [] \<Longrightarrow>
     time_entries rs = Inr ([], [])"
proof (induction rs)
  case Nil
  then show ?case by simp
next
  case (Cons r rs)
  then obtain kvs where r: "r = JObj kvs" by (cases r) simp_all
  from Cons.prems(2) have h: "py_in ''TimeToEquilibriumImpact'' r \<noteq> Inr True"
    and t: "having ''TimeToEquilibriumImpact'' rs = []"
    by (auto simp: having_def split: if_splits)
  show ?case using Cons.IH Cons.prems(1) t h r by (simp add: and_then_def)
qed

lemma comp_entries_dicts:
  "list_all is_dict rs \<Longrightarrow>
     \<exists>cs. comp_entries rs = Inr cs \<and> length cs = length (having ''WorkforceCompositionImpact'' rs)"
proof (induction rs)
  case Nil
  then show ?case by (simp add: having_def)
next
  case (Cons r rs)
  then obtain kvs where r: "r = JObj kvs" by (cases r) simp_all
  from Cons obtain cs where cs: "comp_entries rs = Inr cs"
    "length cs = length (having ''WorkforceCompositionImpact'' rs)" by auto
  show ?case
  proof (cases "''WorkforceCompositionImpact'' \<in> fst ` set kvs")
    case True
    then obtain v where "map_of kvs ''WorkforceCompositionImpact'' = Some v"
      by (metis key_absent not_Some_eq)
    then show ?thesis using True r cs by (simp add: and_then_def having_def)
  next
    case False
    then show ?thesis using r cs by (simp add: and_then_def having_def)
  qed
qed

text \<open>
  Claim C10 (corrected). On a report whose \<open>ParameterRankings\<close> is a list of dicts:
  when no entry has \<open>TimeToEquilibriumImpact\<close> and some entry has
  \<open>WorkforceCompositionImpact\<close>, \<open>plot_parameter_rankings\<close> raises \<open>UnboundLocalError\<close> and
  writes nothing; so it returns without error only if some entry has the first key
  whenever some entry has the second. When both charts are drawn, the second is drawn
  on the positions \<open>y_pos\<close> and with the labels \<open>param_names\<close> of the first.
\<close>

theorem plot_parameter_rankings_unbound:
  assumes "map_of kvs ''ParameterRankings'' = Some (JArr rs)" and "list_all is_dict rs"
  shows "(having ''TimeToEquilibriumImpact'' rs = []
            \<and> having ''WorkforceCompositionImpact'' rs \<noteq> [] \<longrightarrow>
          plot_parameter_rankings L (JObj kvs) output_dir w = (Inl UnboundLocalError, w))
       \<and> (fst (plot_parameter_rankings L (JObj kvs) output_dir w) = Inr ()
            \<and> having ''WorkforceCompositionImpact'' rs \<noteq> [] \<longrightarrow>
          having ''TimeToEquilibriumImpact'' rs \<noteq> [])
       \<and> (\<forall>time_impacts param_names comp_impacts.
            time_entries rs = Inr (time_impacts, param_names) \<and> time_impacts \<noteq> []
            \<and> comp_entries rs = Inr comp_impacts \<and> comp_impacts \<noteq> [] \<longrightarrow>
            parameter_rankings_figure L (JArr rs) =
              and_then
                (impact_bars L (1, 1) (arange (length param_names)) time_impacts param_names [])
                (impact_bars L (1, 2) (arange (length param_names)) comp_impacts param_names))"
proof -
  have ne: "kvs \<noteq> []" using assms(1) by auto
  have kp: "''ParameterRankings'' \<in> fst ` set kvs" using assms(1) by (rule key_present)
  have 1: "plot_parameter_rankings L (JObj kvs) output_dir w = (Inl UnboundLocalError, w)"
    if h: "having ''TimeToEquilibriumImpact'' rs = []"
      "having ''WorkforceCompositionImpact'' rs \<noteq> []"
  proof -
    have t: "time_entries rs = Inr ([], [])" using assms(2) h(1) by (rule time_entries_none)
    from comp_entries_dicts[OF assms(2)] h(2) obtain cs where
      cs: "comp_entries rs = Inr cs" "cs \<noteq> []" by fastforce
    have "parameter_rankings_figure L (JArr rs) = Inl UnboundLocalError"
      using t cs by (simp add: parameter_rankings_figure_def and_then_def)
    then show ?thesis
      using ne kp assms(1)
      by (simp add: plot_parameter_rankings_def io_bind_def lift_def)
  qed
  have 2: "having ''TimeToEquilibriumImpact'' rs \<noteq> []"
    if "fst (plot_parameter_rankings L (JObj kvs) output_dir w) = Inr ()"
      "having ''WorkforceCompositionImpact'' rs \<noteq> []"
    using 1 that by fastforce
  have 3: "parameter_rankings_figure L (JArr rs) =
      and_then (impact_bars L (1, 1) (arange (length param_names)) time_impacts param_names [])
        (impact_bars L (1, 2) (arange (length param_names)) comp_impacts param_names)"
    if "time_entries rs = Inr (time_impacts, param_names)" "time_impacts \<noteq> []"
      "comp_entries rs = Inr comp_impacts" "comp_impacts \<noteq> []"
    for time_impacts param_names comp_impacts
    using that by (simp add: parameter_rankings_figure_def and_then_def split: sum.splits)
  show ?thesis using 1 2 3 by blast
qed

theorem plot_parameter_rankings_unbound_witness:
  "plot_parameter_rankings lib0 composition_only [''plots''] world1 = (Inl UnboundLocalError, world1)"
proof -
  let ?rs = "[JObj [(''ParameterName'', JStr ''rate''), (''WorkforceCompositionImpact'', JInt 2)]]"
  have h1: "map_of [(''ParameterRankings'', JArr ?rs)] ''ParameterRankings'' = Some (JArr ?rs)"
    by simp
  have h2: "list_all is_dict ?rs" by simp
  have h3: "having ''TimeToEquilibriumImpact'' ?rs = []
      \<and> having ''WorkforceCompositionImpact'' ?rs \<noteq> []"
    by (simp add: having_def)
  from plot_parameter_rankings_unbound[OF h1 h2, THEN conjunct1, rule_format, OF h3]
  show ?thesis by (simp add: composition_only_def)
qed

text \<open>
  The two numbers of entries need not be equal: with one entry that has
  \<open>TimeToEquilibriumImpact\<close> and none that has \<open>WorkforceCompositionImpact\<close> the second
  chart is skipped, and the function returns and saves the figure of the first.
\<close>

theorem plot_parameter_rankings_time_only:
  "py_getitem time_only ''ParameterRankings''
     = Inr (JArr [JObj [(''ParameterName'', JStr ''rate''), (''TimeToEquilibriumImpact'', JInt 2)]])
   \<and> length (having ''WorkforceCompositionImpact''
        [JObj [(''ParameterName'', JStr ''rate''), (''TimeToEquilibriumImpact'', JInt 2)]]) = 0
   \<and> length (having ''TimeToEquilibriumImpact''
        [JObj [(''ParameterName'', JStr ''rate''), (''TimeToEquilibriumImpact'', JInt 2)]]) = 1
   \<and> plot_parameter_rankings lib0 time_only [''plots''] world1 =
       (Inr (),
        world1\<lparr>files := files world1 @
          [([''plots'', ''parameter_rankings.png''],
            File (PNG [((1, 1), Bars [JInt 0] [JInt 2]),
                       ((1, 1), Ticks [JInt 0] [JStr ''rate'']),
                       ((1, 1), Label [F (JInt 2) ''.3f''])]))]\<rparr>)"
proof -
  have f: "parameter_rankings_figure lib0
      (JArr [JObj [(''ParameterName'', JStr ''rate''), (''TimeToEquilibriumImpact'', JInt 2)]])
      = Inr [((1, 1), Bars [JInt 0] [JInt 2]), ((1, 1), Ticks [JInt 0] [JStr ''rate'']),
             ((1, 1), Label [F (JInt 2) ''.3f''])]"
    by (simp add: parameter_rankings_figure_def and_then_def impact_bars_def arange_def
        draw_def lib0_def)
  have s: "savefig [''plots'', ''parameter_rankings.png''] fig world1
      = (Inr (), world1\<lparr>files := files world1 @
          [([''plots'', ''parameter_rankings.png''], File (PNG fig))]\<rparr>)" for fig
    by (simp add: savefig_def write_file_def is_dir_def parent_def world1_def)
  have "plot_parameter_rankings lib0 time_only [''plots''] world1 =
       (Inr (),
        world1\<lparr>files := files world1 @
          [([''plots'', ''parameter_rankings.png''],
            File (PNG [((1, 1), Bars [JInt 0] [JInt 2]),
                       ((1, 1), Ticks [JInt 0] [JStr ''rate'']),
                       ((1, 1), Label [F (JInt 2) ''.3f''])]))]\<rparr>)"
    by (simp add: plot_parameter_rankings_def time_only_def io_bind_def lift_def f s)
  then show ?thesis by (simp add: time_only_def having_def)
qed

subsection \<open>Parameter variations\<close>




subsection \<open>Correlation heat map\<close>











end
